theory Spec2Isabelle
  imports Main
begin

section \<open>The pipeline service of the CDS user interface\<close>

text \<open>
  The class \<open>PipelineService\<close> (\<open>ui/src/app/service/pipeline/pipeline.service.ts\<close>)
  has one method per action on a pipeline. Every method builds the arguments of one call
  of Angular's \<open>HttpClient\<close> (verb, address, body, headers, query parameters, response
  type) and returns the observable of that call, in one case piped through a \<open>map\<close>.
  The model below gives each method as a function from its arguments to that call.
\<close>

subsection \<open>JavaScript values the methods convert\<close>

text \<open>
  A \<open>number\<close> argument or field that holds an identifier is an \<open>int option\<close>: \<open>None\<close> is
  \<open>undefined\<close> (an identifier that was never set, as the \<open>id\<close> of a stage before it is
  inserted). Numbers that are not integers, and integers that a JavaScript number does
  not hold exactly or writes with an exponent (magnitude \<open>2^53\<close> and above), are outside
  the model. A string that the code tests for truthiness is a \<open>string option\<close>, \<open>None\<close>
  again \<open>undefined\<close>.
\<close>

fun digits :: "nat \<Rightarrow> string" where
  "digits n =
     (if n < 10 then [''0123456789'' ! n]
      else digits (n div 10) @ [''0123456789'' ! (n mod 10)])"

declare digits.simps [simp del]

text \<open>
  The string that \<open>'...' + x\<close> and \<open>`${x}`\<close> put in place of a number \<open>x\<close>
  (ECMAScript \<open>ToString\<close>): the decimal digits, a minus sign before them for a negative
  number, and the text \<open>undefined\<close> for \<open>undefined\<close>.
\<close>

definition toString :: "int option \<Rightarrow> string" where
  "toString x =
     (case x of
        None \<Rightarrow> ''undefined''
      | Some i \<Rightarrow> (if i < 0 then CHR ''-'' # digits (nat (- i)) else digits (nat i)))"

text \<open>
  Reading decimal digits back as a number. No method of the service does this; it is
  here to state that \<open>digits\<close> is the decimal notation.
\<close>

definition digit_value :: "char \<Rightarrow> nat" where
  "digit_value c = of_char c - 48"

definition decimal :: "string \<Rightarrow> nat" where
  "decimal s = foldl (\<lambda>a c. 10 * a + digit_value c) 0 s"

text \<open>\<open>!s\<close> for a string: true for \<open>undefined\<close> and for the empty string.\<close>

definition falsy :: "string option \<Rightarrow> bool" where
  "falsy s = (case s of None \<Rightarrow> True | Some t \<Rightarrow> t = [])"

text \<open>\<open>a || b\<close> for strings, \<open>b\<close> a string that is present.\<close>

definition or_else :: "string option \<Rightarrow> string \<Rightarrow> string" where
  "or_else a b = (if falsy a then b else the a)"

subsection \<open>Domain objects\<close>

text \<open>
  The classes \<open>Pipeline\<close>, \<open>Stage\<close>, \<open>Job\<close> and \<open>Parameter\<close> are declared in
  \<open>ui/src/app/model\<close>. The service reads \<open>stage.id\<close>, \<open>job.pipeline_action_id\<close>,
  \<open>param.name\<close> and \<open>param.previousName\<close> and nothing else; every other field is kept
  as one opaque value of type \<open>'o\<close>, and a pipeline is opaque altogether.
  The field \<open>id\<close> of a stage is \<open>stage_id\<close> here (\<open>id\<close> is the identity function of HOL).
\<close>

record 'o Pipeline =
  pipeline_fields :: 'o

record 'o Stage =
  stage_id :: "int option"
  stage_fields :: 'o

record 'o Job =
  pipeline_action_id :: "int option"
  job_fields :: 'o

record 'o Parameter =
  name :: string
  previousName :: "string option"
  parameter_fields :: 'o

text \<open>What \<open>Parameter.format\<close> returns: the representation of a parameter sent to the API.\<close>

record 'o FormattedParameter =
  formatted_name :: string
  formatted_fields :: 'o

text \<open>
  Modelled from the spec: the static method \<open>Parameter.format\<close> of
  \<open>ui/src/app/model/parameter.model.ts\<close>, which \<open>updateParameter\<close> calls and which is not
  among the sources. The spec calls its result the normalized parameter representation
  and says that its identity field is the (new) name of the parameter. What the
  normalization does to the other fields is the argument \<open>normalise\<close>.
\<close>

definition Parameter_format ::
  "('o Parameter \<Rightarrow> 'o) \<Rightarrow> 'o Parameter \<Rightarrow> 'o FormattedParameter" where
  "Parameter_format normalise parameter =
     \<lparr>formatted_name = name parameter, formatted_fields = normalise parameter\<rparr>"

subsection \<open>Calls of the HTTP client\<close>

datatype verb = GET | POST | PUT | DELETE

text \<open>
  The option \<open>responseType\<close> of a call: \<open>'json'\<close> when it is left out, \<open>'text'\<close> where the
  service sets it.
\<close>

datatype responseType = JsonResponse | TextResponse

text \<open>
  The body argument: none (\<open>get\<close> and \<open>delete\<close> take no body, and an \<open>undefined\<close> body
  argument is no body), the object literal \<open>{}\<close>, a string, or one of the domain objects.
\<close>

datatype 'o body =
    NoBody
  | EmptyObject
  | TextBody string
  | PipelineBody "'o Pipeline"
  | StageBody "'o Stage"
  | JobBody "'o Job"
  | ParameterBody "'o Parameter"
  | FormattedParameterBody "'o FormattedParameter"

text \<open>
  \<open>HttpHeaders\<close> and \<open>HttpParams\<close> are built by \<open>append\<close> from the empty object: the list
  of the appended pairs, in order.
\<close>

record 'o request =
  verb :: verb
  address :: string
  body :: "'o body"
  headers :: "(string \<times> string) list"
  params :: "(string \<times> string) list"
  responseType :: responseType

text \<open>
  What the client's observable emits for a successful response: the value parsed from the
  response text when the response type is \<open>'json'\<close>, the response text itself when it is
  \<open>'text'\<close>. What the service's observable emits: that value, or a boolean.
\<close>

datatype 'v received = Parsed 'v | Literal string

datatype 'v emitted = Value "'v received" | Boolean bool

text \<open>
  A method's result: the request it hands to the client, and what it does to the value
  the client emits (\<open>finish\<close>: the function of \<open>pipe(map(...))\<close>, or nothing).
\<close>

record ('o, 'v) call =
  request :: "'o request"
  finish :: "'v received \<Rightarrow> 'v emitted"

text \<open>
  The four calls of the client that the service uses, \<open>get(url, options)\<close>,
  \<open>delete(url, options)\<close>, \<open>post(url, body, options)\<close> and \<open>put(url, body, options)\<close>,
  as one function of the verb. Options that a method leaves out are the empty headers,
  the empty query parameters and the response type \<open>'json'\<close>. The observable of the
  client emits the received value as it is.
\<close>

definition http ::
  "verb \<Rightarrow> string \<Rightarrow> 'o body \<Rightarrow> (string \<times> string) list \<Rightarrow> (string \<times> string) list
     \<Rightarrow> responseType \<Rightarrow> ('o, 'v) call" where
  "http m u b hs ps rt =
     \<lparr>request = \<lparr>verb = m, address = u, body = b, headers = hs, params = ps, responseType = rt\<rparr>,
      finish = Value\<rparr>"

text \<open>
  The client's side of a response, as far as the service relies on it: with response
  type \<open>'text'\<close> the text is emitted as it is; with \<open>'json'\<close> it is parsed (\<open>parse\<close>, the
  client's JSON decoding, \<open>None\<close> where the text does not parse and the observable fails).
  The service's observable then emits \<open>finish\<close> of that.
\<close>

definition decode :: "(string \<Rightarrow> 'v option) \<Rightarrow> responseType \<Rightarrow> string \<Rightarrow> 'v received option" where
  "decode parse rt txt =
     (case rt of
        TextResponse \<Rightarrow> Some (Literal txt)
      | JsonResponse \<Rightarrow> map_option Parsed (parse txt))"

definition respond :: "(string \<Rightarrow> 'v option) \<Rightarrow> ('o, 'v) call \<Rightarrow> string \<Rightarrow> 'v emitted option" where
  "respond parse c txt = map_option (finish c) (decode parse (responseType (request c)) txt)"

subsection \<open>The methods of the service\<close>

definition getPipelines :: "string \<Rightarrow> ('o, 'v) call" where
  "getPipelines key = http GET (''/project/'' @ key @ ''/pipeline'') NoBody [] [] JsonResponse"

definition getPipeline :: "string \<Rightarrow> string \<Rightarrow> ('o, 'v) call" where
  "getPipeline key pipName =
     (let params0 = [];
          params1 = params0 @ [(''withApplications'', ''true'')];
          params2 = params1 @ [(''withWorkflows'', ''true'')];
          params3 = params2 @ [(''withEnvironments'', ''true'')]
      in http GET (''/project/'' @ key @ ''/pipeline/'' @ pipName) NoBody [] params3 JsonResponse)"

definition updatePipeline :: "string \<Rightarrow> string \<Rightarrow> 'o Pipeline \<Rightarrow> ('o, 'v) call" where
  "updatePipeline key oldName pipeline =
     http PUT (''/project/'' @ key @ ''/pipeline/'' @ oldName) (PipelineBody pipeline) [] []
       JsonResponse"

definition importPipeline ::
  "string \<Rightarrow> string option \<Rightarrow> string \<Rightarrow> bool option \<Rightarrow> ('o, 'v) call" where
  "importPipeline key pipName pipelineCode force =
     (let headers0 = [];
          headers1 = headers0 @ [(''Content-Type'', ''application/x-yaml'')];
          params0 = [];
          params1 = params0 @ [(''format'', ''yaml'')]
      in if falsy pipName
         then http POST (''/project/'' @ key @ ''/import/pipeline'') (TextBody pipelineCode)
                headers1 params1 JsonResponse
         else http PUT (''/project/'' @ key @ ''/import/pipeline/'' @ the pipName)
                (TextBody pipelineCode) headers1 params1 JsonResponse)"

definition rollbackPipeline :: "string \<Rightarrow> string \<Rightarrow> int option \<Rightarrow> ('o, 'v) call" where
  "rollbackPipeline key pipName auditId =
     http POST (''/project/'' @ key @ ''/pipeline/'' @ pipName @ ''/rollback/'' @ toString auditId)
       EmptyObject [] [] JsonResponse"

definition deletePipeline :: "string \<Rightarrow> string \<Rightarrow> ('o, 'v) call" where
  "deletePipeline key pipName =
     (http DELETE (''/project/'' @ key @ ''/pipeline/'' @ pipName) NoBody [] [] JsonResponse)
       \<lparr>finish := (\<lambda>_. Boolean True)\<rparr>"

definition createPipeline :: "string \<Rightarrow> 'o Pipeline \<Rightarrow> ('o, 'v) call" where
  "createPipeline key pipeline =
     http POST (''/project/'' @ key @ ''/pipeline'') (PipelineBody pipeline) [] [] JsonResponse"

definition getApplications :: "string \<Rightarrow> string \<Rightarrow> ('o, 'v) call" where
  "getApplications key pipName =
     http GET (''/project/'' @ key @ ''/pipeline/'' @ pipName @ ''/application'') NoBody [] []
       JsonResponse"

definition insertStage :: "string \<Rightarrow> string \<Rightarrow> 'o Stage \<Rightarrow> ('o, 'v) call" where
  "insertStage key pipName stage =
     http POST (''/project/'' @ key @ ''/pipeline/'' @ pipName @ ''/stage'') (StageBody stage) [] []
       JsonResponse"

definition updateStage :: "string \<Rightarrow> string \<Rightarrow> 'o Stage \<Rightarrow> ('o, 'v) call" where
  "updateStage key pipName stage =
     http PUT
       (''/project/'' @ key @ ''/pipeline/'' @ pipName @ ''/stage/'' @ toString (stage_id stage))
       (StageBody stage) [] [] JsonResponse"

definition deleteStage :: "string \<Rightarrow> string \<Rightarrow> 'o Stage \<Rightarrow> ('o, 'v) call" where
  "deleteStage key pipName stage =
     http DELETE
       (''/project/'' @ key @ ''/pipeline/'' @ pipName @ ''/stage/'' @ toString (stage_id stage))
       NoBody [] [] JsonResponse"

definition addJob :: "string \<Rightarrow> string \<Rightarrow> int option \<Rightarrow> 'o Job \<Rightarrow> ('o, 'v) call" where
  "addJob key pipName stageID job =
     http POST
       (''/project/'' @ key @ ''/pipeline/'' @ pipName @ ''/stage/'' @ toString stageID @ ''/job'')
       (JobBody job) [] [] JsonResponse"

definition updateJob :: "string \<Rightarrow> string \<Rightarrow> int option \<Rightarrow> 'o Job \<Rightarrow> ('o, 'v) call" where
  "updateJob key pipName stageID job =
     (let url0 = ''/project/'' @ key @ ''/pipeline/'' @ pipName @ ''/stage/'' @ toString stageID
                   @ ''/job/'' @ toString (pipeline_action_id job)
      in http PUT url0 (JobBody job) [] [] JsonResponse)"

definition removeJob :: "string \<Rightarrow> string \<Rightarrow> int option \<Rightarrow> 'o Job \<Rightarrow> ('o, 'v) call" where
  "removeJob key pipName stageID job =
     (let url0 = ''/project/'' @ key @ ''/pipeline/'' @ pipName @ ''/stage/'' @ toString stageID
                   @ ''/job/'' @ toString (pipeline_action_id job)
      in http DELETE url0 NoBody [] [] JsonResponse)"

definition addParameter :: "string \<Rightarrow> string \<Rightarrow> 'o Parameter \<Rightarrow> ('o, 'v) call" where
  "addParameter key pipName param =
     http POST (''/project/'' @ key @ ''/pipeline/'' @ pipName @ ''/parameter/'' @ name param)
       (ParameterBody param) [] [] JsonResponse"

definition updateParameter ::
  "('o Parameter \<Rightarrow> 'o) \<Rightarrow> string \<Rightarrow> string \<Rightarrow> 'o Parameter \<Rightarrow> ('o, 'v) call" where
  "updateParameter normalise key pipName param =
     http PUT
       (''/project/'' @ key @ ''/pipeline/'' @ pipName @ ''/parameter/''
          @ or_else (previousName param) (name param))
       (FormattedParameterBody (Parameter_format normalise param)) [] [] JsonResponse"

definition removeParameter :: "string \<Rightarrow> string \<Rightarrow> 'o Parameter \<Rightarrow> ('o, 'v) call" where
  "removeParameter key pipName param =
     http DELETE (''/project/'' @ key @ ''/pipeline/'' @ pipName @ ''/parameter/'' @ name param)
       NoBody [] [] JsonResponse"

definition moveStage :: "string \<Rightarrow> string \<Rightarrow> 'o Stage \<Rightarrow> ('o, 'v) call" where
  "moveStage key pipName stage =
     http POST (''/project/'' @ key @ ''/pipeline/'' @ pipName @ ''/stage/move'') (StageBody stage)
       [] [] JsonResponse"

definition getPipelineExport :: "string \<Rightarrow> string \<Rightarrow> ('o, 'v) call" where
  "getPipelineExport key pipName =
     (let params0 = [];
          params1 = params0 @ [(''format'', ''yaml'')];
          params2 = params1 @ [(''withPermissions'', ''true'')]
      in http GET (''/project/'' @ key @ ''/export/pipeline/'' @ pipName) NoBody [] params2
           TextResponse)"

definition previewPipelineImport :: "string \<Rightarrow> string \<Rightarrow> ('o, 'v) call" where
  "previewPipelineImport key pipImportCode =
     (let params0 = [];
          params1 = params0 @ [(''format'', ''yaml'')];
          headers0 = [];
          headers1 = headers0 @ [(''Content-Type'', ''application/x-yaml'')]
      in http POST (''/project/'' @ key @ ''/preview/pipeline'') (TextBody pipImportCode)
           headers1 params1 JsonResponse)"


subsection \<open>The operations of the service, as one type\<close>

text \<open>
  One constructor per method of the class, with the method's arguments; \<open>perform\<close> is the
  method call. The first argument of \<open>perform\<close> is the normalization that
  \<open>Parameter.format\<close> applies (see \<open>Parameter_format\<close>).
\<close>

datatype 'o operation =
    GetPipelines string
  | GetPipeline string string
  | UpdatePipeline string string "'o Pipeline"
  | ImportPipeline string "string option" string "bool option"
  | RollbackPipeline string string "int option"
  | DeletePipeline string string
  | CreatePipeline string "'o Pipeline"
  | GetApplications string string
  | InsertStage string string "'o Stage"
  | UpdateStage string string "'o Stage"
  | DeleteStage string string "'o Stage"
  | AddJob string string "int option" "'o Job"
  | UpdateJob string string "int option" "'o Job"
  | RemoveJob string string "int option" "'o Job"
  | AddParameter string string "'o Parameter"
  | UpdateParameter string string "'o Parameter"
  | RemoveParameter string string "'o Parameter"
  | MoveStage string string "'o Stage"
  | GetPipelineExport string string
  | PreviewPipelineImport string string

fun perform :: "('o Parameter \<Rightarrow> 'o) \<Rightarrow> 'o operation \<Rightarrow> ('o, 'v) call" where
  "perform nf (GetPipelines key) = getPipelines key"
| "perform nf (GetPipeline key pipName) = getPipeline key pipName"
| "perform nf (UpdatePipeline key oldName pipeline) = updatePipeline key oldName pipeline"
| "perform nf (ImportPipeline key pipName pipelineCode force) =
     importPipeline key pipName pipelineCode force"
| "perform nf (RollbackPipeline key pipName auditId) = rollbackPipeline key pipName auditId"
| "perform nf (DeletePipeline key pipName) = deletePipeline key pipName"
| "perform nf (CreatePipeline key pipeline) = createPipeline key pipeline"
| "perform nf (GetApplications key pipName) = getApplications key pipName"
| "perform nf (InsertStage key pipName stage) = insertStage key pipName stage"
| "perform nf (UpdateStage key pipName stage) = updateStage key pipName stage"
| "perform nf (DeleteStage key pipName stage) = deleteStage key pipName stage"
| "perform nf (AddJob key pipName stageID job) = addJob key pipName stageID job"
| "perform nf (UpdateJob key pipName stageID job) = updateJob key pipName stageID job"
| "perform nf (RemoveJob key pipName stageID job) = removeJob key pipName stageID job"
| "perform nf (AddParameter key pipName param) = addParameter key pipName param"
| "perform nf (UpdateParameter key pipName param) = updateParameter nf key pipName param"
| "perform nf (RemoveParameter key pipName param) = removeParameter key pipName param"
| "perform nf (MoveStage key pipName stage) = moveStage key pipName stage"
| "perform nf (GetPipelineExport key pipName) = getPipelineExport key pipName"
| "perform nf (PreviewPipelineImport key pipImportCode) = previewPipelineImport key pipImportCode"

text \<open>
  The operations whose payload is the textual definition of a pipeline, and the requests
  whose body is a string.
\<close>

fun textual :: "'o operation \<Rightarrow> bool" where
  "textual (ImportPipeline key pipName pipelineCode force) = True"
| "textual (PreviewPipelineImport key pipImportCode) = True"
| "textual _ = False"

fun is_text :: "'o body \<Rightarrow> bool" where
  "is_text (TextBody s) = True"
| "is_text _ = False"

subsection \<open>Calling a method with an object that may be absent\<close>

text \<open>
  A method call as the runtime sees it: an argument declared as a pipeline, a stage, a
  job or a parameter may be \<open>undefined\<close> (\<open>None\<close>). One constructor per method again,
  the object arguments optional.
\<close>

datatype 'o invocation =
    Call_getPipelines string
  | Call_getPipeline string string
  | Call_updatePipeline string string "'o Pipeline option"
  | Call_importPipeline string "string option" string "bool option"
  | Call_rollbackPipeline string string "int option"
  | Call_deletePipeline string string
  | Call_createPipeline string "'o Pipeline option"
  | Call_getApplications string string
  | Call_insertStage string string "'o Stage option"
  | Call_updateStage string string "'o Stage option"
  | Call_deleteStage string string "'o Stage option"
  | Call_addJob string string "int option" "'o Job option"
  | Call_updateJob string string "int option" "'o Job option"
  | Call_removeJob string string "int option" "'o Job option"
  | Call_addParameter string string "'o Parameter option"
  | Call_updateParameter string string "'o Parameter option"
  | Call_removeParameter string string "'o Parameter option"
  | Call_moveStage string string "'o Stage option"
  | Call_getPipelineExport string string
  | Call_previewPipelineImport string string

text \<open>
  What a caller gets from a method call before any response: the call handed to the
  client, or the error that the method raises. No method of the class has a \<open>throw\<close>
  statement or tests an argument before it builds its request (the one test, \<open>!pipName\<close>
  in \<open>importPipeline\<close>, chooses between two requests). The one error is the runtime's:
  reading a field of \<open>undefined\<close> (\<open>stage.id\<close>, \<open>job.pipeline_action_id\<close>, \<open>param.name\<close>,
  \<open>param.previousName\<close>) raises a \<open>TypeError\<close> while the address is computed, before the
  client is called. An absent object that the method only hands on as the body, without
  reading a field of it, leaves the request without a body.
\<close>

datatype failure = TypeError

fun invoke :: "('o Parameter \<Rightarrow> 'o) \<Rightarrow> 'o invocation \<Rightarrow> failure + ('o, 'v) call" where
  "invoke nf (Call_getPipelines key) = Inr (getPipelines key)"
| "invoke nf (Call_getPipeline key pipName) = Inr (getPipeline key pipName)"
| "invoke nf (Call_updatePipeline key oldName pipeline) =
     Inr (case pipeline of
            Some p \<Rightarrow> updatePipeline key oldName p
          | None \<Rightarrow> http PUT (''/project/'' @ key @ ''/pipeline/'' @ oldName) NoBody [] []
                     JsonResponse)"
| "invoke nf (Call_importPipeline key pipName pipelineCode force) =
     Inr (importPipeline key pipName pipelineCode force)"
| "invoke nf (Call_rollbackPipeline key pipName auditId) =
     Inr (rollbackPipeline key pipName auditId)"
| "invoke nf (Call_deletePipeline key pipName) = Inr (deletePipeline key pipName)"
| "invoke nf (Call_createPipeline key pipeline) =
     Inr (case pipeline of
            Some p \<Rightarrow> createPipeline key p
          | None \<Rightarrow> http POST (''/project/'' @ key @ ''/pipeline'') NoBody [] [] JsonResponse)"
| "invoke nf (Call_getApplications key pipName) = Inr (getApplications key pipName)"
| "invoke nf (Call_insertStage key pipName stage) =
     Inr (case stage of
            Some s \<Rightarrow> insertStage key pipName s
          | None \<Rightarrow> http POST (''/project/'' @ key @ ''/pipeline/'' @ pipName @ ''/stage'') NoBody
                     [] [] JsonResponse)"
| "invoke nf (Call_updateStage key pipName stage) =
     (case stage of Some s \<Rightarrow> Inr (updateStage key pipName s) | None \<Rightarrow> Inl TypeError)"
| "invoke nf (Call_deleteStage key pipName stage) =
     (case stage of Some s \<Rightarrow> Inr (deleteStage key pipName s) | None \<Rightarrow> Inl TypeError)"
| "invoke nf (Call_addJob key pipName stageID job) =
     Inr (case job of
            Some j \<Rightarrow> addJob key pipName stageID j
          | None \<Rightarrow> http POST
                     (''/project/'' @ key @ ''/pipeline/'' @ pipName @ ''/stage/''
                        @ toString stageID @ ''/job'')
                     NoBody [] [] JsonResponse)"
| "invoke nf (Call_updateJob key pipName stageID job) =
     (case job of Some j \<Rightarrow> Inr (updateJob key pipName stageID j) | None \<Rightarrow> Inl TypeError)"
| "invoke nf (Call_removeJob key pipName stageID job) =
     (case job of Some j \<Rightarrow> Inr (removeJob key pipName stageID j) | None \<Rightarrow> Inl TypeError)"
| "invoke nf (Call_addParameter key pipName param) =
     (case param of Some p \<Rightarrow> Inr (addParameter key pipName p) | None \<Rightarrow> Inl TypeError)"
| "invoke nf (Call_updateParameter key pipName param) =
     (case param of Some p \<Rightarrow> Inr (updateParameter nf key pipName p) | None \<Rightarrow> Inl TypeError)"
| "invoke nf (Call_removeParameter key pipName param) =
     (case param of Some p \<Rightarrow> Inr (removeParameter key pipName p) | None \<Rightarrow> Inl TypeError)"
| "invoke nf (Call_moveStage key pipName stage) =
     Inr (case stage of
            Some s \<Rightarrow> moveStage key pipName s
          | None \<Rightarrow> http POST (''/project/'' @ key @ ''/pipeline/'' @ pipName @ ''/stage/move'')
                     NoBody [] [] JsonResponse)"
| "invoke nf (Call_getPipelineExport key pipName) = Inr (getPipelineExport key pipName)"
| "invoke nf (Call_previewPipelineImport key pipImportCode) =
     Inr (previewPipelineImport key pipImportCode)"

text \<open>An operation, all its objects present, as a method call.\<close>

fun present :: "'o operation \<Rightarrow> 'o invocation" where
  "present (GetPipelines key) = Call_getPipelines key"
| "present (GetPipeline key pipName) = Call_getPipeline key pipName"
| "present (UpdatePipeline key oldName pipeline) = Call_updatePipeline key oldName (Some pipeline)"
| "present (ImportPipeline key pipName pipelineCode force) =
     Call_importPipeline key pipName pipelineCode force"
| "present (RollbackPipeline key pipName auditId) = Call_rollbackPipeline key pipName auditId"
| "present (DeletePipeline key pipName) = Call_deletePipeline key pipName"
| "present (CreatePipeline key pipeline) = Call_createPipeline key (Some pipeline)"
| "present (GetApplications key pipName) = Call_getApplications key pipName"
| "present (InsertStage key pipName stage) = Call_insertStage key pipName (Some stage)"
| "present (UpdateStage key pipName stage) = Call_updateStage key pipName (Some stage)"
| "present (DeleteStage key pipName stage) = Call_deleteStage key pipName (Some stage)"
| "present (AddJob key pipName stageID job) = Call_addJob key pipName stageID (Some job)"
| "present (UpdateJob key pipName stageID job) = Call_updateJob key pipName stageID (Some job)"
| "present (RemoveJob key pipName stageID job) = Call_removeJob key pipName stageID (Some job)"
| "present (AddParameter key pipName param) = Call_addParameter key pipName (Some param)"
| "present (UpdateParameter key pipName param) = Call_updateParameter key pipName (Some param)"
| "present (RemoveParameter key pipName param) = Call_removeParameter key pipName (Some param)"
| "present (MoveStage key pipName stage) = Call_moveStage key pipName (Some stage)"
| "present (GetPipelineExport key pipName) = Call_getPipelineExport key pipName"
| "present (PreviewPipelineImport key pipImportCode) = Call_previewPipelineImport key pipImportCode"

text \<open>The calls in which a method reads a field of an absent object.\<close>

fun reads_absent :: "'o invocation \<Rightarrow> bool" where
  "reads_absent (Call_updateStage key pipName None) = True"
| "reads_absent (Call_deleteStage key pipName None) = True"
| "reads_absent (Call_updateJob key pipName stageID None) = True"
| "reads_absent (Call_removeJob key pipName stageID None) = True"
| "reads_absent (Call_addParameter key pipName None) = True"
| "reads_absent (Call_updateParameter key pipName None) = True"
| "reads_absent (Call_removeParameter key pipName None) = True"
| "reads_absent _ = False"

subsection \<open>The address table of the specification\<close>

text \<open>
  The specification gives each operation its address as a path (section 4.1:
  \<open>project/pipeline/stage/id/job[/actionId]\<close> and so on; section 8 spells some out). A path
  is a sequence of segments: a fixed word, a name given by the caller, or an identifier
  given by the caller or read from an object. \<open>segments\<close> is that table, written from the
  specification and not from the methods; where the object that holds the entity's own
  identifier is absent, the path stops before it. \<open>render\<close> writes a path as text: every
  segment after a slash, a name as it is, an identifier as \<open>toString\<close> converts it.
\<close>

datatype segment = Fixed string | Name string | Identifier "int option"

fun pipeline_path :: "string \<Rightarrow> string \<Rightarrow> segment list" where
  "pipeline_path key pipName = [Fixed ''project'', Name key, Fixed ''pipeline'', Name pipName]"

fun segments :: "'o invocation \<Rightarrow> segment list" where
  "segments (Call_getPipelines key) = [Fixed ''project'', Name key, Fixed ''pipeline'']"
| "segments (Call_getPipeline key pipName) = pipeline_path key pipName"
| "segments (Call_updatePipeline key oldName pipeline) = pipeline_path key oldName"
| "segments (Call_importPipeline key pipName pipelineCode force) =
     [Fixed ''project'', Name key, Fixed ''import'', Fixed ''pipeline'']
       @ (if falsy pipName then [] else [Name (the pipName)])"
| "segments (Call_rollbackPipeline key pipName auditId) =
     pipeline_path key pipName @ [Fixed ''rollback'', Identifier auditId]"
| "segments (Call_deletePipeline key pipName) = pipeline_path key pipName"
| "segments (Call_createPipeline key pipeline) = [Fixed ''project'', Name key, Fixed ''pipeline'']"
| "segments (Call_getApplications key pipName) = pipeline_path key pipName @ [Fixed ''application'']"
| "segments (Call_insertStage key pipName stage) = pipeline_path key pipName @ [Fixed ''stage'']"
| "segments (Call_updateStage key pipName stage) =
     pipeline_path key pipName @ [Fixed ''stage'']
       @ (case stage of Some s \<Rightarrow> [Identifier (stage_id s)] | None \<Rightarrow> [])"
| "segments (Call_deleteStage key pipName stage) =
     pipeline_path key pipName @ [Fixed ''stage'']
       @ (case stage of Some s \<Rightarrow> [Identifier (stage_id s)] | None \<Rightarrow> [])"
| "segments (Call_addJob key pipName stageID job) =
     pipeline_path key pipName @ [Fixed ''stage'', Identifier stageID, Fixed ''job'']"
| "segments (Call_updateJob key pipName stageID job) =
     pipeline_path key pipName @ [Fixed ''stage'', Identifier stageID, Fixed ''job'']
       @ (case job of Some j \<Rightarrow> [Identifier (pipeline_action_id j)] | None \<Rightarrow> [])"
| "segments (Call_removeJob key pipName stageID job) =
     pipeline_path key pipName @ [Fixed ''stage'', Identifier stageID, Fixed ''job'']
       @ (case job of Some j \<Rightarrow> [Identifier (pipeline_action_id j)] | None \<Rightarrow> [])"
| "segments (Call_addParameter key pipName param) =
     pipeline_path key pipName @ [Fixed ''parameter'']
       @ (case param of Some p \<Rightarrow> [Name (name p)] | None \<Rightarrow> [])"
| "segments (Call_updateParameter key pipName param) =
     pipeline_path key pipName @ [Fixed ''parameter'']
       @ (case param of
            Some p \<Rightarrow> [Name (or_else (previousName p) (name p))]
          | None \<Rightarrow> [])"
| "segments (Call_removeParameter key pipName param) =
     pipeline_path key pipName @ [Fixed ''parameter'']
       @ (case param of Some p \<Rightarrow> [Name (name p)] | None \<Rightarrow> [])"
| "segments (Call_moveStage key pipName stage) =
     pipeline_path key pipName @ [Fixed ''stage'', Fixed ''move'']"
| "segments (Call_getPipelineExport key pipName) =
     [Fixed ''project'', Name key, Fixed ''export'', Fixed ''pipeline'', Name pipName]"
| "segments (Call_previewPipelineImport key pipImportCode) =
     [Fixed ''project'', Name key, Fixed ''preview'', Fixed ''pipeline'']"

fun segment_text :: "segment \<Rightarrow> string" where
  "segment_text (Fixed w) = w"
| "segment_text (Name n) = n"
| "segment_text (Identifier i) = toString i"

definition render :: "segment list \<Rightarrow> string" where
  "render path = concat (map (\<lambda>s. CHR ''/'' # segment_text s) path)"

text \<open>
  A component of an address is malformed when it is an empty name, or an identifier that
  is negative or undefined; a call is malformed when a component of its address is.
\<close>

definition malformed_identifier :: "int option \<Rightarrow> bool" where
  "malformed_identifier i = (case i of None \<Rightarrow> True | Some n \<Rightarrow> n < 0)"

fun malformed_segment :: "segment \<Rightarrow> bool" where
  "malformed_segment (Fixed w) = False"
| "malformed_segment (Name n) = (n = [])"
| "malformed_segment (Identifier i) = malformed_identifier i"

definition malformed :: "'o invocation \<Rightarrow> bool" where
  "malformed i = list_ex malformed_segment (segments i)"

section \<open>Properties\<close>

lemmas method_defs =
  getPipelines_def getPipeline_def updatePipeline_def importPipeline_def rollbackPipeline_def
  deletePipeline_def createPipeline_def getApplications_def insertStage_def updateStage_def
  deleteStage_def addJob_def updateJob_def removeJob_def addParameter_def updateParameter_def
  removeParameter_def moveStage_def getPipelineExport_def previewPipelineImport_def

lemma request_http:
  "request (http m u b hs ps rt)
     = \<lparr>verb = m, address = u, body = b, headers = hs, params = ps, responseType = rt\<rparr>"
  by (simp add: http_def)

lemma finish_http: "finish (http m u b hs ps rt) = Value"
  by (simp add: http_def)

lemma toString_undefined: "toString None = ''undefined''"
  by (simp add: toString_def)

lemma toString_3: "toString (Some 3) = ''3''"
  by (simp add: toString_def digits.simps)

lemma toString_42: "toString (Some 42) = ''42''"
  by (simp add: toString_def digits.simps)

lemma toString_minus_1: "toString (Some (- 1)) = ''-1''"
  by (simp add: toString_def digits.simps)

subsection \<open>Numbers in addresses\<close>

text \<open>
  \<open>digits\<close> writes a natural number in decimal, so two numbers with the same digits are
  equal; the text of an identifier (\<open>toString\<close>) determines the identifier, \<open>undefined\<close>
  included.
\<close>

lemma digit_value_nth: "n < 10 \<Longrightarrow> digit_value (''0123456789'' ! n) = n"
proof -
  assume "n < 10"
  then have "n \<in> {0, 1, 2, 3, 4, 5, 6, 7, 8, 9}" by auto
  then show ?thesis by (auto simp: digit_value_def)
qed

lemma decimal_snoc: "decimal (s @ [c]) = 10 * decimal s + digit_value c"
  by (simp add: decimal_def)

lemma decimal_digits: "decimal (digits n) = n"
proof (induction n rule: digits.induct)
  case (1 n)
  show ?case
  proof (cases "n < 10")
    case True
    then show ?thesis
      by (subst digits.simps) (simp add: decimal_def digit_value_nth)
  next
    case False
    then have "decimal (digits (n div 10)) = n div 10" using 1 by simp
    with False show ?thesis
      by (subst digits.simps) (simp add: decimal_snoc digit_value_nth)
  qed
qed

lemma digits_inj: "digits m = digits n \<Longrightarrow> m = n"
  by (metis decimal_digits)

lemma digits_not_Nil: "digits n \<noteq> []"
  by (subst digits.simps) simp

lemma hd_digits: "hd (digits n) \<in> set ''0123456789''"
proof (induction n rule: digits.induct)
  case (1 n)
  show ?case
  proof (cases "n < 10")
    case True
    then have "n \<in> {0, 1, 2, 3, 4, 5, 6, 7, 8, 9}" by auto
    then show ?thesis by (subst digits.simps) auto
  next
    case False
    then show ?thesis using 1 digits_not_Nil [of "n div 10"]
      by (subst digits.simps) (simp add: hd_append)
  qed
qed

lemma digits_not_minus: "digits m \<noteq> CHR ''-'' # s"
  using hd_digits [of m] by (cases "digits m") auto

lemma digits_not_undefined: "digits m \<noteq> ''undefined''"
  using hd_digits [of m] by (cases "digits m") auto

lemma toString_Some_not_undefined: "toString (Some i) \<noteq> ''undefined''"
  by (simp add: toString_def digits_not_undefined)

lemma toString_Some_inj:
  assumes eq: "toString (Some i) = toString (Some j)"
  shows "i = j"
proof -
  consider "i < 0" "j < 0" | "i < 0" "\<not> j < 0" | "\<not> i < 0" "j < 0" | "\<not> i < 0" "\<not> j < 0"
    by blast
  then show ?thesis
  proof cases
    case 1
    with eq have "digits (nat (- i)) = digits (nat (- j))" by (simp add: toString_def)
    then have "nat (- i) = nat (- j)" by (rule digits_inj)
    with 1 show ?thesis by simp
  next
    case 2
    with eq have "digits (nat j) = CHR ''-'' # digits (nat (- i))" by (simp add: toString_def)
    then show ?thesis by (simp add: digits_not_minus)
  next
    case 3
    with eq have "digits (nat i) = CHR ''-'' # digits (nat (- j))" by (simp add: toString_def)
    then show ?thesis by (simp add: digits_not_minus)
  next
    case 4
    with eq have "digits (nat i) = digits (nat j)" by (simp add: toString_def)
    then have "nat i = nat j" by (rule digits_inj)
    with 4 show ?thesis by simp
  qed
qed

lemma toString_inj: "toString a = toString b \<Longrightarrow> a = b"
proof (cases a)
  case None
  assume "toString a = toString b"
  with None have "toString b = ''undefined''" by (simp add: toString_undefined)
  then have "b = None" using toString_Some_not_undefined by (cases b) auto
  with None show ?thesis by simp
next
  case (Some i)
  assume eq: "toString a = toString b"
  show ?thesis
  proof (cases b)
    case None
    with eq Some have "toString (Some i) = ''undefined''" by (simp add: toString_undefined)
    then show ?thesis by (simp add: toString_Some_not_undefined)
  next
    case (Some j)
    with eq \<open>a = Some i\<close> have "i = j" by (auto intro: toString_Some_inj)
    with Some \<open>a = Some i\<close> show ?thesis by simp
  qed
qed

subsection \<open>Import: the verb and the address\<close>

text \<open>
  C1. \<open>importPipeline\<close> with an absent or empty target name issues a POST to the
  collection address \<open>/project/{key}/import/pipeline\<close>, and with a non-empty name a PUT to
  \<open>/project/{key}/import/pipeline/{name}\<close>. The verb and the address switch together: for
  every target name the request is one of these two pairs.
\<close>

theorem importPipeline_verb_and_address:
  fixes key pipelineCode :: string and force :: "bool option" and pipName :: "string option"
  defines "req \<equiv> \<lambda>n. request (importPipeline key n pipelineCode force :: ('o, 'v) call)"
  defines "collection \<equiv> ''/project/'' @ key @ ''/import/pipeline''"
  shows "verb (req None) = POST \<and> address (req None) = collection
       \<and> verb (req (Some [])) = POST \<and> address (req (Some [])) = collection
       \<and> verb (req (Some (c # cs))) = PUT
       \<and> address (req (Some (c # cs))) = collection @ ''/'' @ c # cs
       \<and> ((verb (req pipName) = POST \<and> address (req pipName) = collection \<and> falsy pipName)
          \<or> (verb (req pipName) = PUT \<and> address (req pipName) = collection @ ''/'' @ the pipName
              \<and> \<not> falsy pipName))"
  unfolding req_def collection_def
  by (cases pipName) (simp_all add: importPipeline_def request_http falsy_def Let_def)

theorem importPipeline_verb_and_address_witness:
  "verb (request (importPipeline ''PRJ'' (Some []) ''version: v1.0'' None :: (unit, unit) call))
     = POST
   \<and> address (request (importPipeline ''PRJ'' (Some []) ''version: v1.0'' None :: (unit, unit) call))
     = ''/project/PRJ/import/pipeline''
   \<and> verb (request (importPipeline ''PRJ'' (Some ''P'') ''version: v1.0'' None :: (unit, unit) call))
     = PUT
   \<and> address (request (importPipeline ''PRJ'' (Some ''P'') ''version: v1.0'' None :: (unit, unit) call))
     = ''/project/PRJ/import/pipeline/P''"
  using importPipeline_verb_and_address
    [where 'o = unit and 'v = unit and key = "''PRJ''" and pipelineCode = "''version: v1.0''"
       and force = None and c = "CHR ''P''" and cs = "[]" and pipName = "Some ''P''"]
  by simp

subsection \<open>Renaming a parameter\<close>

text \<open>
  C2. \<open>updateParameter\<close> issues a PUT to
  \<open>/project/{key}/pipeline/{pipName}/parameter/{previousName}\<close> when \<open>previousName\<close> is set,
  and to \<open>.../parameter/{name}\<close> when it is not (\<open>||\<close> takes an empty \<open>previousName\<close>
  as not set). The body is \<open>Parameter.format(param)\<close>, whose identity field is the
  parameter's name, that is the new name of a rename.
\<close>

theorem updateParameter_address_and_body:
  fixes normalise :: "'o Parameter \<Rightarrow> 'o" and param :: "'o Parameter" and key pipName :: string
  defines "c \<equiv> (updateParameter normalise key pipName param :: ('o, 'v) call)"
  shows "verb (request c) = PUT
       \<and> address (request c)
           = ''/project/'' @ key @ ''/pipeline/'' @ pipName @ ''/parameter/''
               @ (case previousName param of
                    None \<Rightarrow> name param
                  | Some old \<Rightarrow> (if old = [] then name param else old))
       \<and> body (request c) = FormattedParameterBody (Parameter_format normalise param)
       \<and> formatted_name (Parameter_format normalise param) = name param"
  unfolding c_def
  by (cases "previousName param")
     (simp_all add: updateParameter_def request_http or_else_def falsy_def Parameter_format_def)

theorem updateParameter_address_and_body_witness:
  "address (request (updateParameter (\<lambda>p. ()) ''PRJ'' ''P''
          \<lparr>name = ''new'', previousName = Some ''old'', parameter_fields = ()\<rparr> :: (unit, unit) call))
     = ''/project/PRJ/pipeline/P/parameter/old''
   \<and> body (request (updateParameter (\<lambda>p. ()) ''PRJ'' ''P''
          \<lparr>name = ''new'', previousName = Some ''old'', parameter_fields = ()\<rparr> :: (unit, unit) call))
     = FormattedParameterBody \<lparr>formatted_name = ''new'', formatted_fields = ()\<rparr>
   \<and> address (request (updateParameter (\<lambda>p. ()) ''PRJ'' ''P''
          \<lparr>name = ''x'', previousName = None, parameter_fields = ()\<rparr> :: (unit, unit) call))
     = ''/project/PRJ/pipeline/P/parameter/x''"
  using updateParameter_address_and_body
    [where 'o = unit and 'v = unit and normalise = "\<lambda>p. ()" and key = "''PRJ''"
       and pipName = "''P''"
       and param = "\<lparr>name = ''new'', previousName = Some ''old'', parameter_fields = ()\<rparr>"]
    updateParameter_address_and_body
    [where 'o = unit and 'v = unit and normalise = "\<lambda>p. ()" and key = "''PRJ''"
       and pipName = "''P''"
       and param = "\<lparr>name = ''x'', previousName = None, parameter_fields = ()\<rparr>"]
  by (simp add: Parameter_format_def)

subsection \<open>No address component is checked\<close>

lemma render_append: "render (xs @ ys) = render xs @ render ys"
  by (simp add: render_def)

lemma render_Cons: "render (s # path) = CHR ''/'' # segment_text s @ render path"
  by (simp add: render_def)

lemma render_Nil: "render [] = []"
  by (simp add: render_def)

text \<open>
  C3 (as amended). No operation checks the names and identifiers of its address. A method
  call fails by itself only when an object whose field the method reads (the stage of
  \<open>updateStage\<close> and \<open>deleteStage\<close>, the job of \<open>updateJob\<close> and \<open>removeJob\<close>, the
  parameter of \<open>addParameter\<close>, \<open>updateParameter\<close> and \<open>removeParameter\<close>) is absent, and
  then with the runtime's \<open>TypeError\<close>. In every other case, whatever the names and the
  identifiers, each of the twenty methods builds its request, and the address of the
  request is the path of the specification's table with every component converted to
  text as it is: an empty name is an empty path segment, an undefined identifier the
  text \<open>undefined\<close>, a negative identifier its signed decimal.
\<close>

theorem no_address_component_is_checked:
  fixes nf :: "'o Parameter \<Rightarrow> 'o" and i :: "'o invocation" and op :: "'o operation"
  shows "(case (invoke nf i :: failure + ('o, 'v) call) of
            Inl e \<Rightarrow> e = TypeError \<and> reads_absent i
          | Inr c \<Rightarrow> \<not> reads_absent i \<and> address (request c) = render (segments i))
       \<and> (invoke nf (present op) :: failure + ('o, 'v) call) = Inr (perform nf op)
       \<and> address (request (perform nf op :: ('o, 'v) call)) = render (segments (present op))
       \<and> render (xs @ [Name []] @ ys) = render xs @ ''/'' @ render ys
       \<and> render (xs @ [Identifier None] @ ys) = render xs @ ''/undefined'' @ render ys
       \<and> render (xs @ [Identifier (Some (- 1))] @ ys) = render xs @ ''/-1'' @ render ys"
proof -
  have calls: "case (invoke nf i :: failure + ('o, 'v) call) of
                 Inl e \<Rightarrow> e = TypeError \<and> reads_absent i
               | Inr c \<Rightarrow> \<not> reads_absent i \<and> address (request c) = render (segments i)"
    by (cases i)
       (simp_all add: method_defs request_http Let_def render_Cons render_Nil render_append
          split: option.split)
  have all_present: "(invoke nf (present op) :: failure + ('o, 'v) call) = Inr (perform nf op)"
    by (cases op) simp_all
  have addresses:
    "address (request (perform nf op :: ('o, 'v) call)) = render (segments (present op))"
    by (cases op)
       (simp_all add: method_defs request_http Let_def render_Cons render_Nil render_append)
  have texts:
    "render (xs @ [Name []] @ ys) = render xs @ ''/'' @ render ys"
    "render (xs @ [Identifier None] @ ys) = render xs @ ''/undefined'' @ render ys"
    "render (xs @ [Identifier (Some (- 1))] @ ys) = render xs @ ''/-1'' @ render ys"
    by (simp_all add: render_append render_Cons toString_undefined toString_minus_1)
  from calls all_present addresses texts show ?thesis by blast
qed

theorem no_address_component_is_checked_witness:
  "(invoke (\<lambda>p. ()) (Call_updateJob ''PRJ'' ''P'' (Some (- 1))
        (Some \<lparr>pipeline_action_id = Some 3, job_fields = ()\<rparr>)) :: failure + (unit, unit) call)
     = Inr (updateJob ''PRJ'' ''P'' (Some (- 1)) \<lparr>pipeline_action_id = Some 3, job_fields = ()\<rparr>)
   \<and> address (request (updateJob ''PRJ'' ''P'' (Some (- 1))
                         \<lparr>pipeline_action_id = Some 3, job_fields = ()\<rparr> :: (unit, unit) call))
     = ''/project/PRJ/pipeline/P/stage/-1/job/3''
   \<and> address (request (getApplications ''PRJ'' [] :: (unit, unit) call))
     = ''/project/PRJ/pipeline//application''"
  using no_address_component_is_checked
    [where 'o = unit and 'v = unit and nf = "\<lambda>p. ()"
       and i = "Call_updateJob ''PRJ'' ''P'' (Some (- 1))
                  (Some \<lparr>pipeline_action_id = Some 3, job_fields = ()\<rparr>)"
       and op = "UpdateJob ''PRJ'' ''P'' (Some (- 1)) \<lparr>pipeline_action_id = Some 3, job_fields = ()\<rparr>"
       and xs = "[]" and ys = "[]"]
    no_address_component_is_checked
    [where 'o = unit and 'v = unit and nf = "\<lambda>p. ()"
       and i = "Call_getApplications ''PRJ'' []"
       and op = "GetApplications ''PRJ'' []" and xs = "[]" and ys = "[]"]
  by (simp add: render_Cons render_Nil toString_3 toString_minus_1)

text \<open>
  The claim as the specification states it fails. \<open>updateJob\<close> with an absent stage id
  and a job that is present is a malformed call; it is not rejected, it builds the
  request with the address \<open>/project/PRJ/pipeline/P/stage/undefined/job/3\<close>.
\<close>

theorem updateJob_absent_stage_id_counterexample:
  "malformed (Call_updateJob ''PRJ'' ''P'' None
               (Some \<lparr>pipeline_action_id = Some 3, job_fields = ()\<rparr>))
   \<and> (invoke (\<lambda>p. ()) (Call_updateJob ''PRJ'' ''P'' None
          (Some \<lparr>pipeline_action_id = Some 3, job_fields = ()\<rparr>)) :: failure + (unit, unit) call)
       = Inr (updateJob ''PRJ'' ''P'' None \<lparr>pipeline_action_id = Some 3, job_fields = ()\<rparr>)
   \<and> verb (request (updateJob ''PRJ'' ''P'' None
                      \<lparr>pipeline_action_id = Some 3, job_fields = ()\<rparr> :: (unit, unit) call))
       = PUT
   \<and> address (request (updateJob ''PRJ'' ''P'' None
                         \<lparr>pipeline_action_id = Some 3, job_fields = ()\<rparr> :: (unit, unit) call))
       = ''/project/PRJ/pipeline/P/stage/undefined/job/3''"
  by (simp add: malformed_def malformed_identifier_def updateJob_def request_http
        toString_undefined toString_3)

subsection \<open>The textual format is declared on import and preview\<close>

text \<open>
  C4. The requests whose payload is the textual definition of a pipeline are those of
  \<open>importPipeline\<close> and \<open>previewPipelineImport\<close> and of no other operation. Each of them
  carries the header \<open>Content-Type: application/x-yaml\<close> and the query parameter
  \<open>format=yaml\<close>; the request of any other operation carries no header.
\<close>

theorem yaml_declared_on_textual_payloads:
  fixes nf :: "'o Parameter \<Rightarrow> 'o" and op :: "'o operation"
  defines "r \<equiv> request (perform nf op :: ('o, 'v) call)"
  shows "is_text (body r) = textual op
       \<and> (textual op \<longrightarrow>
            (''Content-Type'', ''application/x-yaml'') \<in> set (headers r)
            \<and> (''format'', ''yaml'') \<in> set (params r))
       \<and> (\<not> textual op \<longrightarrow> headers r = [])"
  unfolding r_def
  by (cases op) (simp_all add: method_defs request_http Let_def)

theorem yaml_declared_on_textual_payloads_witness:
  "textual (ImportPipeline ''PRJ'' (Some ''P'') ''version: v1.0'' None :: unit operation)
   \<and> is_text (body (request (perform (\<lambda>p. ())
         (ImportPipeline ''PRJ'' (Some ''P'') ''version: v1.0'' None) :: (unit, unit) call)))
   \<and> (''Content-Type'', ''application/x-yaml'')
       \<in> set (headers (request (perform (\<lambda>p. ())
           (ImportPipeline ''PRJ'' (Some ''P'') ''version: v1.0'' None) :: (unit, unit) call)))
   \<and> (''format'', ''yaml'')
       \<in> set (params (request (perform (\<lambda>p. ())
           (ImportPipeline ''PRJ'' (Some ''P'') ''version: v1.0'' None) :: (unit, unit) call)))
   \<and> \<not> textual (GetPipelineExport ''PRJ'' ''P'' :: unit operation)
   \<and> headers (request (perform (\<lambda>p. ()) (GetPipelineExport ''PRJ'' ''P'') :: (unit, unit) call)) = []"
  using yaml_declared_on_textual_payloads
    [where 'o = unit and 'v = unit and nf = "\<lambda>p. ()"
       and op = "ImportPipeline ''PRJ'' (Some ''P'') ''version: v1.0'' None"]
    yaml_declared_on_textual_payloads
    [where 'o = unit and 'v = unit and nf = "\<lambda>p. ()" and op = "GetPipelineExport ''PRJ'' ''P''"]
  by simp

subsection \<open>What the delete operations return\<close>

text \<open>
  C5. \<open>deletePipeline\<close> turns whatever a successful response carries (nothing, null, an
  object) into the boolean \<open>true\<close>. The other delete operations, \<open>deleteStage\<close>,
  \<open>removeJob\<close> and \<open>removeParameter\<close>, return the value of the response body, the
  updated pipeline, unchanged.
\<close>

theorem delete_results:
  fixes received :: "'v received" and parse :: "string \<Rightarrow> 'v option"
    and key pipName :: string and stage :: "'o Stage" and job :: "'o Job"
    and param :: "'o Parameter" and stageID :: "int option"
  defines "pipeline_deleted \<equiv> (deletePipeline key pipName :: ('o, 'v) call)"
    and "stage_deleted \<equiv> (deleteStage key pipName stage :: ('o, 'v) call)"
    and "job_removed \<equiv> (removeJob key pipName stageID job :: ('o, 'v) call)"
    and "parameter_removed \<equiv> (removeParameter key pipName param :: ('o, 'v) call)"
  shows "verb (request pipeline_deleted) = DELETE
       \<and> finish pipeline_deleted received = Boolean True
       \<and> respond parse pipeline_deleted response = map_option (\<lambda>v. Boolean True) (parse response)
       \<and> verb (request stage_deleted) = DELETE
       \<and> finish stage_deleted received = Value received
       \<and> respond parse stage_deleted response = map_option (\<lambda>v. Value (Parsed v)) (parse response)
       \<and> verb (request job_removed) = DELETE
       \<and> finish job_removed received = Value received
       \<and> respond parse job_removed response = map_option (\<lambda>v. Value (Parsed v)) (parse response)
       \<and> verb (request parameter_removed) = DELETE
       \<and> finish parameter_removed received = Value received
       \<and> respond parse parameter_removed response = map_option (\<lambda>v. Value (Parsed v)) (parse response)"
  unfolding pipeline_deleted_def stage_deleted_def job_removed_def parameter_removed_def
  by (simp add: deletePipeline_def deleteStage_def removeJob_def removeParameter_def
        request_http finish_http respond_def decode_def http_def option.map_comp comp_def)

text \<open>
  In the witness a parsed body is a \<open>string option\<close>: \<open>None\<close> stands for null (what an
  empty response parses to, too), \<open>Some s\<close> for an object.
\<close>

theorem delete_results_witness:
  "finish (deletePipeline ''PRJ'' ''P'' :: (unit, string option) call) (Parsed None) = Boolean True
   \<and> finish (deletePipeline ''PRJ'' ''P'' :: (unit, string option) call) (Parsed (Some ''pipeline''))
       = Boolean True
   \<and> finish (deleteStage ''PRJ'' ''P'' \<lparr>stage_id = Some 7, stage_fields = ()\<rparr>
               :: (unit, string option) call) (Parsed (Some ''pipeline''))
       = Value (Parsed (Some ''pipeline''))
   \<and> finish (removeParameter ''PRJ'' ''P''
                \<lparr>name = ''FOO'', previousName = None, parameter_fields = ()\<rparr>
               :: (unit, string option) call) (Parsed (Some ''pipeline''))
       = Value (Parsed (Some ''pipeline''))"
  using delete_results
    [where 'o = unit and 'v = "string option" and key = "''PRJ''" and pipName = "''P''"
       and received = "Parsed None"]
    delete_results
    [where 'o = unit and 'v = "string option" and key = "''PRJ''" and pipName = "''P''"
       and received = "Parsed (Some ''pipeline'')"
       and stage = "\<lparr>stage_id = Some 7, stage_fields = ()\<rparr>"
       and param = "\<lparr>name = ''FOO'', previousName = None, parameter_fields = ()\<rparr>"]
  by simp

subsection \<open>Export\<close>

text \<open>
  C6. The request of \<open>getPipelineExport\<close> carries the query parameters \<open>format=yaml\<close> and
  \<open>withPermissions=true\<close> and asks for the response as text: for every response text, also
  one that parses as JSON, the result is that text itself and never a parsed value.
\<close>

theorem getPipelineExport_literal_text:
  fixes key pipName :: string and parse :: "string \<Rightarrow> 'v option"
  defines "c \<equiv> (getPipelineExport key pipName :: ('o, 'v) call)"
  shows "verb (request c) = GET
       \<and> address (request c) = ''/project/'' @ key @ ''/export/pipeline/'' @ pipName
       \<and> params (request c) = [(''format'', ''yaml''), (''withPermissions'', ''true'')]
       \<and> responseType (request c) = TextResponse
       \<and> respond parse c response = Some (Value (Literal response))
       \<and> respond parse c response \<noteq> map_option (\<lambda>v. Value (Parsed v)) (parse response)"
  unfolding c_def
  by (cases "parse response")
     (simp_all add: getPipelineExport_def request_http finish_http respond_def decode_def Let_def)

theorem getPipelineExport_literal_text_witness:
  "params (request (getPipelineExport ''PRJ'' ''P'' :: (unit, string) call))
     = [(''format'', ''yaml''), (''withPermissions'', ''true'')]
   \<and> respond Some (getPipelineExport ''PRJ'' ''P'' :: (unit, string) call) ''[1, 2]''
       = Some (Value (Literal ''[1, 2]''))"
  using getPipelineExport_literal_text
    [where 'o = unit and 'v = "string" and key = "''PRJ''" and pipName = "''P''" and parse = Some
       and response = "''[1, 2]''"]
  by simp

subsection \<open>Rollback\<close>

text \<open>
  C7. \<open>rollbackPipeline\<close> issues a POST to
  \<open>/project/{key}/pipeline/{pipName}/rollback/{auditId}\<close>. Its body is the empty object
  \<open>{}\<close>, whatever the audit id: the audit id is in the address, which determines it,
  and not in the body.
\<close>

theorem rollbackPipeline_request:
  fixes key pipName :: string
  defines "req \<equiv> \<lambda>a. request (rollbackPipeline key pipName a :: ('o, 'v) call)"
  shows "verb (req auditId) = POST
       \<and> address (req auditId)
           = ''/project/'' @ key @ ''/pipeline/'' @ pipName @ ''/rollback/'' @ toString auditId
       \<and> body (req auditId) = EmptyObject
       \<and> body (req auditId) = body (req auditId')
       \<and> (address (req auditId) = address (req auditId')) = (auditId = auditId')
       \<and> headers (req auditId) = [] \<and> params (req auditId) = []"
  unfolding req_def
  by (auto simp: rollbackPipeline_def request_http dest: toString_inj)

theorem rollbackPipeline_request_witness:
  "verb (request (rollbackPipeline ''PRJ'' ''P'' (Some 42) :: (unit, unit) call)) = POST
   \<and> address (request (rollbackPipeline ''PRJ'' ''P'' (Some 42) :: (unit, unit) call))
       = ''/project/PRJ/pipeline/P/rollback/42''
   \<and> body (request (rollbackPipeline ''PRJ'' ''P'' (Some 42) :: (unit, unit) call)) = EmptyObject"
  using rollbackPipeline_request
    [where 'o = unit and 'v = unit and key = "''PRJ''" and pipName = "''P''"
       and auditId = "Some 42" and auditId' = None]
  by (simp add: toString_42)

subsection \<open>Reading a pipeline\<close>

text \<open>
  C8. For every project key and pipeline name the request of \<open>getPipeline\<close> carries the
  three query parameters \<open>withApplications=true\<close>, \<open>withWorkflows=true\<close> and
  \<open>withEnvironments=true\<close>; the method has no other argument.
\<close>

theorem getPipeline_flags:
  fixes key pipName :: string
  defines "r \<equiv> request (getPipeline key pipName :: ('o, 'v) call)"
  shows "verb r = GET
       \<and> address r = ''/project/'' @ key @ ''/pipeline/'' @ pipName
       \<and> params r = [(''withApplications'', ''true''), (''withWorkflows'', ''true''),
                       (''withEnvironments'', ''true'')]"
  unfolding r_def
  by (simp add: getPipeline_def request_http Let_def)

theorem getPipeline_flags_witness:
  "params (request (getPipeline ''PRJ'' ''P'' :: (unit, unit) call))
     = [(''withApplications'', ''true''), (''withWorkflows'', ''true''),
        (''withEnvironments'', ''true'')]
   \<and> address (request (getPipeline ''PRJ'' ''P'' :: (unit, unit) call)) = ''/project/PRJ/pipeline/P''"
  using getPipeline_flags [where 'o = unit and 'v = unit and key = "''PRJ''" and pipName = "''P''"]
  by simp

subsection \<open>Addresses of nested entities\<close>

text \<open>
  C9. The address of a nested entity is the address of its parent followed by its own
  identifier: of a pipeline, the project's pipeline collection and the pipeline's name;
  of a stage, the pipeline's stage collection and the stage's id; of a job, the stage's
  job collection and the job's id; of a parameter, the pipeline's address, \<open>/parameter/\<close>
  and the parameter's name. In the scenario, the update of the job with id 3 of a stage
  of pipeline P in project PRJ is addressed \<open>/project/PRJ/pipeline/P/stage/<stageId>/job/3\<close>.
\<close>

theorem nested_addresses:
  fixes key pipName :: string and stage :: "'o Stage" and job :: "'o Job"
    and param :: "'o Parameter" and nf :: "'o Parameter \<Rightarrow> 'o"
  defines "addr \<equiv> \<lambda>c :: ('o, 'v) call. address (request c)"
  shows "addr (getPipeline key pipName) = addr (getPipelines key) @ ''/'' @ pipName
       \<and> addr (insertStage key pipName stage) = addr (getPipeline key pipName) @ ''/stage''
       \<and> addr (updateStage key pipName stage)
           = addr (insertStage key pipName stage) @ ''/'' @ toString (stage_id stage)
       \<and> addr (deleteStage key pipName stage) = addr (updateStage key pipName stage)
       \<and> addr (addJob key pipName (stage_id stage) job)
           = addr (updateStage key pipName stage) @ ''/job''
       \<and> addr (updateJob key pipName stageID job)
           = addr (addJob key pipName stageID job) @ ''/'' @ toString (pipeline_action_id job)
       \<and> addr (removeJob key pipName stageID job) = addr (updateJob key pipName stageID job)
       \<and> addr (addParameter key pipName param)
           = addr (getPipeline key pipName) @ ''/parameter/'' @ name param
       \<and> addr (removeParameter key pipName param) = addr (addParameter key pipName param)
       \<and> addr (updateParameter nf key pipName param)
           = addr (getPipeline key pipName) @ ''/parameter/''
               @ or_else (previousName param) (name param)
       \<and> addr (updateJob ''PRJ'' ''P'' stageId (job\<lparr>pipeline_action_id := Some 3\<rparr>))
           = ''/project/PRJ/pipeline/P/stage/'' @ toString stageId @ ''/job/3''"
  unfolding addr_def
  by (simp add: method_defs request_http Let_def toString_3)

theorem nested_addresses_witness:
  "address (request (updateJob ''PRJ'' ''P'' (Some 42) \<lparr>pipeline_action_id = Some 3, job_fields = ()\<rparr>
                  :: (unit, unit) call))
     = ''/project/PRJ/pipeline/P/stage/42/job/3''"
  using nested_addresses
    [where 'o = unit and 'v = unit and stageId = "Some 42"
       and job = "\<lparr>pipeline_action_id = Some 3, job_fields = ()\<rparr>"
       and key = "''PRJ''" and pipName = "''P''" and stageID = None and nf = "\<lambda>p. ()"
       and stage = "\<lparr>stage_id = Some 42, stage_fields = ()\<rparr>"
       and param = "\<lparr>name = ''FOO'', previousName = None, parameter_fields = ()\<rparr>"]
  by (simp add: toString_42)

subsection \<open>The force flag of import\<close>

text \<open>
  C10. The request that \<open>importPipeline\<close> builds does not depend on its argument \<open>force\<close>:
  for every key, target name and source text, the call (verb, address, headers, query
  parameters, body, response handling) is the same for every two values of \<open>force\<close>,
  given as true, as false or left out.
\<close>

theorem importPipeline_ignores_force:
  fixes key pipelineCode :: string and pipName :: "string option" and force force' :: "bool option"
  shows "(importPipeline key pipName pipelineCode force :: ('o, 'v) call)
           = importPipeline key pipName pipelineCode force'
       \<and> request (importPipeline key pipName pipelineCode (Some True) :: ('o, 'v) call)
           = request (importPipeline key pipName pipelineCode None :: ('o, 'v) call)
       \<and> request (importPipeline key pipName pipelineCode (Some False) :: ('o, 'v) call)
           = request (importPipeline key pipName pipelineCode None :: ('o, 'v) call)"
  by (simp add: importPipeline_def)

theorem importPipeline_ignores_force_witness:
  "(importPipeline ''PRJ'' (Some ''P'') ''version: v1.0'' (Some True) :: (unit, unit) call)
     = importPipeline ''PRJ'' (Some ''P'') ''version: v1.0'' None"
  using importPipeline_ignores_force
    [where 'o = unit and 'v = unit and key = "''PRJ''" and pipName = "Some ''P''"
       and pipelineCode = "''version: v1.0''" and force = "Some True" and force' = None]
  by simp

end
